theory Spec2Isabelle
  imports Complex_Main
begin

section \<open>JavaScript values and objects\<close>

text \<open>
  The values the element code handles: attribute values, style objects, animation
  configurations. Numbers are modelled as integers (no NaN, no fractions); a plain object
  is an association list in insertion order, read with \<open>get_prop\<close> (a missing key
  reads \<open>JUndefined\<close>, as in JavaScript) and written with \<open>set_prop\<close>
  (an existing key keeps its position, a new key is appended).
\<close>

datatype jsval =
    JUndefined
  | JNull
  | JBool bool
  | JNum int
  | JStr string
  | JObj "(string \<times> jsval) list"

type_synonym obj = "(string \<times> jsval) list"

text \<open>JavaScript truthiness: what \<open>if (v)\<close>, \<open>!v\<close> and \<open>a || b\<close> test.\<close>

fun truthy :: "jsval \<Rightarrow> bool" where
  "truthy JUndefined = False"
| "truthy JNull = False"
| "truthy (JBool b) = b"
| "truthy (JNum n) = (n \<noteq> 0)"
| "truthy (JStr s) = (s \<noteq> [])"
| "truthy (JObj kvs) = True"

text \<open>\<open>isNil\<close> of @antv/util: the value is \<open>null\<close> or \<open>undefined\<close>.\<close>

fun isNil :: "jsval \<Rightarrow> bool" where
  "isNil JUndefined = True"
| "isNil JNull = True"
| "isNil v = False"

text \<open>\<open>o[k]\<close>: the value stored under \<open>k\<close>, \<open>undefined\<close> when there is none.\<close>

definition get_prop :: "obj \<Rightarrow> string \<Rightarrow> jsval" where
  "get_prop ob k = (case map_of ob k of None \<Rightarrow> JUndefined | Some v \<Rightarrow> v)"

text \<open>\<open>o[k] = v\<close>.\<close>

fun set_prop :: "string \<Rightarrow> jsval \<Rightarrow> obj \<Rightarrow> obj" where
  "set_prop k v [] = [(k, v)]"
| "set_prop k v ((k', v') # ob) =
     (if k' = k then (k, v) # ob else (k', v') # set_prop k v ob)"

text \<open>
  \<open>{...a, ...b}\<close> copies the own properties of \<open>b\<close> over those of \<open>a\<close>, in the order
  of \<open>b\<close>; \<open>assign a b\<close> is that object. An object has every key once; in a list
  that repeats a key the first entry is the property (as \<open>get_prop\<close> reads it) and the
  later ones are skipped. Spreading \<open>undefined\<close> or \<open>null\<close> copies nothing, which
  \<open>spread\<close> expresses for an optional object.
\<close>

fun assign :: "obj \<Rightarrow> obj \<Rightarrow> obj" where
  "assign a [] = a"
| "assign a ((k, v) # b) = assign (set_prop k v a) (filter (\<lambda>p. fst p \<noteq> k) b)"

definition spread :: "obj \<Rightarrow> obj option \<Rightarrow> obj" where
  "spread a b = (case b of None \<Rightarrow> a | Some kvs \<Rightarrow> assign a kvs)"

text \<open>
  \<open>get(o, k)\<close> of @antv/util, for an object that may be \<open>undefined\<close> and a key
  without a dot (the library splits a string key at dots into a path; the attribute
  names read here, \<open>stroke\<close>, \<open>fill\<close>, \<open>lineWidth\<close>, \<open>r\<close>, have none).
\<close>

definition get :: "obj option \<Rightarrow> string \<Rightarrow> jsval" where
  "get ob k = (case ob of None \<Rightarrow> JUndefined | Some kvs \<Rightarrow> get_prop kvs k)"

section \<open>The drawing model (ShapeInfo) and the style resolver\<close>

text \<open>
  The \<open>shape\<close> field of a model: absent, one shape type name, or a list of candidate
  names.
\<close>

datatype shapeField = NoShape | ShapeName string | ShapeNames "string list"

text \<open>
  The fields of \<open>ShapeInfo\<close> the code reads. \<open>None\<close> stands for an absent
  (\<open>undefined\<close> or \<open>null\<close>) field.
\<close>

record shapeInfo =
  si_style :: "obj option"
  si_defaultStyle :: "obj option"
  si_color :: "string option"
  si_size :: "int option"
  si_shape :: shapeField
  si_data :: jsval

text \<open>\<open>if (color)\<close>: a colour that is present and not the empty string.\<close>

definition color_truthy :: "string option \<Rightarrow> bool" where
  "color_truthy c = (case c of None \<Rightarrow> False | Some s \<Rightarrow> s \<noteq> [])"

text \<open>\<open>getStyle(cfg, isStroke, isFill, sizeName)\<close> of shape/util/get-style.ts.\<close>

definition getStyle :: "shapeInfo \<Rightarrow> bool \<Rightarrow> bool \<Rightarrow> string \<Rightarrow> obj" where
  "getStyle cfg isStroke isFill sizeName =
     (let style = si_style cfg;
          attrs0 = spread (spread [] (si_defaultStyle cfg)) style;
          attrs1 =
            (if color_truthy (si_color cfg) then
               (let a =
                      (if isStroke \<and> \<not> truthy (get style ''stroke'')
                       then set_prop ''stroke'' (JStr (the (si_color cfg))) attrs0
                       else attrs0)
                in if isFill \<and> \<not> truthy (get style ''fill'')
                   then set_prop ''fill'' (JStr (the (si_color cfg))) a
                   else a)
             else attrs0)
      in if sizeName \<noteq> [] \<and> isNil (get style sizeName) \<and> si_size cfg \<noteq> None
         then set_prop sizeName (JNum (the (si_size cfg))) attrs1
         else attrs1)"

section \<open>The scene graph\<close>

text \<open>
  What the element code reads and writes of a scene-graph node (a shape or a group of
  the rendering library): the tags kept with \<open>set\<close>/\<open>get\<close> (\<open>name\<close>,
  \<open>visible\<close>, \<open>origin\<close>, \<open>data\<close>, \<open>inheritNames\<close>; the back reference stored
  under \<open>element\<close> is kept as a flag), its attributes, and for a group its children.
\<close>

record tags =
  t_name :: "string option"
  t_visible :: bool
  t_origin :: "shapeInfo option"
  t_data :: "jsval option"
  t_element :: bool
  t_inheritNames :: "string list"

datatype node =
    Leaf tags obj
  | Group tags obj "node list"

fun node_tags :: "node \<Rightarrow> tags" where
  "node_tags (Leaf t a) = t"
| "node_tags (Group t a cs) = t"

fun node_attrs :: "node \<Rightarrow> obj" where
  "node_attrs (Leaf t a) = a"
| "node_attrs (Group t a cs) = a"

fun map_tags :: "(tags \<Rightarrow> tags) \<Rightarrow> node \<Rightarrow> node" where
  "map_tags f (Leaf t a) = Leaf (f t) a"
| "map_tags f (Group t a cs) = Group (f t) a cs"

text \<open>\<open>shape.show()\<close> and \<open>shape.hide()\<close> set the node's own visibility.\<close>

definition set_visible :: "bool \<Rightarrow> node \<Rightarrow> node" where
  "set_visible v n = map_tags (\<lambda>t. t\<lparr>t_visible := v\<rparr>) n"

text \<open>
  \<open>shape.attr(v)\<close> with one argument: an object argument is written attribute by
  attribute; any other argument makes the call a read, which changes nothing.
\<close>

fun attr :: "jsval \<Rightarrow> node \<Rightarrow> node" where
  "attr (JObj kvs) (Leaf t a) = Leaf t (assign a kvs)"
| "attr (JObj kvs) (Group t a cs) = Group t (assign a kvs) cs"
| "attr v n = n"

text \<open>\<open>shape.isGroup()\<close>.\<close>

fun isGroup :: "node \<Rightarrow> bool" where
  "isGroup (Leaf t a) = False"
| "isGroup (Group t a cs) = True"

text \<open>The leaves of a tree in flattened order, and the attributes of all its nodes.\<close>

fun leaves :: "node \<Rightarrow> node list" where
  "leaves (Leaf t a) = [Leaf t a]"
| "leaves (Group t a cs) = concat (map leaves cs)"

fun all_attrs :: "node \<Rightarrow> obj list" where
  "all_attrs (Leaf t a) = [a]"
| "all_attrs (Group t a cs) = a # concat (map all_attrs cs)"

text \<open>
  The path of every leaf, in flattened order: the child positions from the root down
  to the leaf (\<open>childPaths cs i\<close> for the children \<open>cs\<close>, the first of them at
  position \<open>i\<close>).
\<close>

fun leafPaths :: "node \<Rightarrow> nat list list"
  and childPaths :: "node list \<Rightarrow> nat \<Rightarrow> nat list list" where
  "leafPaths (Leaf t a) = [[]]"
| "leafPaths (Group t a cs) = childPaths cs 0"
| "childPaths [] i = []"
| "childPaths (c # cs) i = map ((#) i) (leafPaths c) @ childPaths cs (Suc i)"

text \<open>
  Two trees are structurally parallel: leaf against leaf, group against group with as
  many children, pairwise parallel.
\<close>

fun parallel :: "node \<Rightarrow> node \<Rightarrow> bool"
  and parallelList :: "node list \<Rightarrow> node list \<Rightarrow> bool" where
  "parallel (Leaf t a) (Leaf tt ta) = True"
| "parallel (Group t a cs) (Group tt ta ns) = parallelList cs ns"
| "parallel (Leaf t a) (Group tt ta ns) = False"
| "parallel (Group t a cs) (Leaf tt ta) = False"
| "parallelList [] [] = True"
| "parallelList (c # cs) (n # ns) = (parallel c n \<and> parallelList cs ns)"
| "parallelList [] (n # ns) = False"
| "parallelList (c # cs) [] = False"

text \<open>
  The children of a container in paint order, each known by an identifier.
  \<open>toFront\<close> moves a child to the end, \<open>toBack\<close> to the start; a node without a
  parent stays where it is.
\<close>

definition toFront :: "nat \<Rightarrow> nat list \<Rightarrow> nat list" where
  "toFront i cs = (if i \<in> set cs then remove1 i cs @ [i] else cs)"

definition toBack :: "nat \<Rightarrow> nat list \<Rightarrow> nat list" where
  "toBack i cs = (if i \<in> set cs then i # remove1 i cs else cs)"

definition fresh_id :: "nat list \<Rightarrow> nat" where
  "fresh_id cs = Suc (fold max cs 0)"

text \<open>A canvas bounding box, as \<open>getCanvasBBox\<close> returns it.\<close>

record bbox =
  bb_x :: real
  bb_y :: real
  bb_minX :: real
  bb_minY :: real
  bb_maxX :: real
  bb_maxY :: real
  bb_width :: real
  bb_height :: real

section \<open>The element\<close>

datatype error = TypeError

text \<open>
  How a call ends: it returns, or it throws an error. Either way the objects it worked
  on are in some state afterwards, which the outcome carries: what was written before a
  throw stays written.
\<close>

datatype 'a outcome = Returned 'a | Threw error 'a

fun after :: "'a outcome \<Rightarrow> 'a" where
  "after (Returned x) = x"
| "after (Threw err x) = x"

text \<open>
  The calls the element makes on its collaborators and that return nothing to it:
  \<open>doAnimate(shape, cfg, {toAttrs})\<close>, \<open>shape.stopAnimate()\<close>,
  \<open>shape.animate(toAttrs, {duration})\<close>, \<open>container.emit('statechange', ev)\<close> and
  \<open>propagationDelegate(container, 'statechange', ev)\<close> with the event's state name and
  status. They are recorded in call order.
\<close>

datatype effect =
    DoAnimate obj obj
  | StopAnimate
  | Animate obj nat
  | Emit string bool
  | Propagate string bool

text \<open>
  \<open>geometry.animateOption\<close>: a boolean, or an object that gives a transition kind
  \<open>false\<close>, \<open>null\<close> or a configuration (a kind it does not list reads
  \<open>undefined\<close>).
\<close>

datatype animateKind = KindFalse | KindNull | KindCfg obj

datatype animateOption = AnimateBool bool | AnimateObj "(string \<times> animateKind) list"

text \<open>
  A state's configuration as \<open>getStateStyle\<close> holds it in \<open>stateCfg\<close>: the
  \<open>animate\<close> entry (absent, \<open>null\<close> or a configuration) and the \<open>style\<close> entry
  (absent, an object, or a callback; the callback receives the element and is modelled
  as a function of the element's model; it has no property of its own under a shape
  key, and an object's entries are values, not callbacks).
\<close>

datatype stateAnimate = SAUndefined | SANull | SACfg obj

datatype style = StyleUndefined | StyleObj obj | StyleCallback "shapeInfo option \<Rightarrow> jsval"

record stateCfg =
  cfg_animate :: stateAnimate
  cfg_style :: style

record stateStyle =
  ss_animate :: stateAnimate
  ss_style :: jsval

text \<open>The key of a leaf in a state's style: its name, or an integer index.\<close>

datatype key = KName string | KIndex nat

text \<open>
  The shape factory: \<open>drawShape(shapeType, model, container)\<close> returns the shape it
  added to the container, or nothing.
\<close>

record shapeFactory =
  geometryType :: string
  coordinate :: string
  factory_drawShape :: "string option \<Rightarrow> shapeInfo option \<Rightarrow> node option"

text \<open>
  The element. \<open>stateCfgOf shapeType stateName\<close> is the value the code computes as
  \<open>deepMix({}, get(theme, [shapeType, stateName], {}), get(geometry.stateOption,
  stateName, {}))\<close>; \<open>getDefaultAnimateCfg\<close> is the function of that name imported from
  the animate module; \<open>container\<close> lists the children of the element's container and
  \<open>shape\<close> is the owned shape with its identifier there; \<open>offscreenGroup\<close> lists the
  children of the scratch group once it exists.
\<close>

record element =
  shapeFactory :: shapeFactory
  stateCfgOf :: "string option \<Rightarrow> string \<Rightarrow> stateCfg"
  animateOption :: animateOption
  getDefaultAnimateCfg :: "string \<Rightarrow> string \<Rightarrow> string \<Rightarrow> obj option"
  container :: "nat list"
  shape :: "(nat \<times> node) option"
  labelShape :: "node list option"
  shapeType :: "string option"
  model :: "shapeInfo option"
  data :: "jsval option"
  states :: "string list"
  offscreenGroup :: "node list option"
  visible :: bool
  effects :: "effect list"

text \<open>\<open>getShapeType\<close>: the model's shape type, the first one of a list.\<close>

definition getShapeType :: "shapeInfo \<Rightarrow> string option" where
  "getShapeType m =
     (case si_shape m of
        NoShape \<Rightarrow> None
      | ShapeName s \<Rightarrow> Some s
      | ShapeNames ss \<Rightarrow> (case ss of [] \<Rightarrow> None | s # rest \<Rightarrow> Some s))"

subsection \<open>Animation-config resolution\<close>

definition animate_truthy :: "animateOption \<Rightarrow> bool" where
  "animate_truthy a = (case a of AnimateBool b \<Rightarrow> b | AnimateObj kvs \<Rightarrow> True)"

text \<open>\<open>animate[animateType]\<close>; \<open>None\<close> is \<open>undefined\<close>.\<close>

definition animate_kind :: "animateOption \<Rightarrow> string \<Rightarrow> animateKind option" where
  "animate_kind a animateType =
     (case a of AnimateBool b \<Rightarrow> None | AnimateObj kvs \<Rightarrow> map_of kvs animateType)"

text \<open>\<open>isEmpty\<close> of @antv/util on a configuration that may be absent.\<close>

definition isEmpty :: "obj option \<Rightarrow> bool" where
  "isEmpty c = (case c of None \<Rightarrow> True | Some kvs \<Rightarrow> kvs = [])"

definition kind_cfg :: "animateKind option \<Rightarrow> obj option" where
  "kind_cfg k = (case k of Some (KindCfg c) \<Rightarrow> Some c | _ \<Rightarrow> None)"

definition getAnimateCfg :: "element \<Rightarrow> string \<Rightarrow> obj option" where
  "getAnimateCfg e animateType =
     (let animate = animateOption e;
          defaultCfg = getDefaultAnimateCfg e (geometryType (shapeFactory e))
                         (coordinate (shapeFactory e)) animateType
      in if \<not> animate_truthy animate
            \<or> (animate = AnimateBool True \<and> isEmpty defaultCfg)
            \<or> animate_kind animate animateType = Some KindFalse
            \<or> animate_kind animate animateType = Some KindNull
         then None
         else Some (spread (spread [] defaultCfg) (kind_cfg (animate_kind animate animateType))))"

subsection \<open>State styles\<close>

text \<open>A number used as a property key is its decimal numeral.\<close>

fun decimal :: "nat \<Rightarrow> string" where
  "decimal n =
     (if n < 10 then [''0123456789'' ! n]
      else decimal (n div 10) @ [''0123456789'' ! (n mod 10)])"

declare decimal.simps [simp del]

definition key_string :: "key \<Rightarrow> string" where
  "key_string k = (case k of KName s \<Rightarrow> s | KIndex n \<Rightarrow> decimal n)"

definition getStateStyle :: "element \<Rightarrow> string \<Rightarrow> key \<Rightarrow> stateStyle" where
  "getStateStyle e stateName shapeKey =
     (let stateCfg = stateCfgOf e (shapeType e) stateName;
          shapeStyle =
            (case cfg_style stateCfg of
               StyleUndefined \<Rightarrow> JUndefined
             | StyleObj ob \<Rightarrow>
                 (if truthy (get_prop ob (key_string shapeKey))
                  then get_prop ob (key_string shapeKey)
                  else JObj ob)
             | StyleCallback f \<Rightarrow> f (model e))
      in \<lparr>ss_animate = cfg_animate stateCfg, ss_style = shapeStyle\<rparr>)"

subsection \<open>Reconciliation\<close>

text \<open>
  Modelled from the spec: \<open>getReplaceAttrs\<close> of util/graphics, which is not among the
  sources. It computes the attribute delta that turns the source leaf into the target
  leaf's attribute set, including the reset of every attribute present on the source
  and absent on the target: the target's attributes, and \<open>undefined\<close> for each other
  attribute of the source.
\<close>

definition getReplaceAttrs :: "obj \<Rightarrow> obj \<Rightarrow> obj" where
  "getReplaceAttrs originAttrs newAttrs =
     assign newAttrs
       (map (\<lambda>p. (fst p, JUndefined))
          (filter (\<lambda>p. get_prop newAttrs (fst p) = JUndefined) originAttrs))"

text \<open>\<open>sourceShape.get('name') || index\<close>.\<close>

definition shapeKey :: "tags \<Rightarrow> nat \<Rightarrow> key" where
  "shapeKey t index =
     (case t_name t of
        None \<Rightarrow> KIndex index
      | Some n \<Rightarrow> if n \<noteq> [] then KName n else KIndex index)"

text \<open>
  \<open>syncShapeStyle(sourceShape, targetShape, state, animateCfg, index)\<close> ends with the
  two trees as the call leaves them and the calls it made. A target that is
  \<open>undefined\<close> makes the call throw a TypeError before it has written anything (at
  \<open>targetShape.get\<close> or \<open>targetShape.attr\<close>), so the target is a node here and the
  callers answer for a missing one; \<open>syncChildren\<close> is the loop over the children, at
  position \<open>i\<close>. A target leaf has no children to index, and a target group may have
  too few.
\<close>

fun syncShapeStyle ::
    "element \<Rightarrow> node \<Rightarrow> node \<Rightarrow> string \<Rightarrow> obj option \<Rightarrow> nat
      \<Rightarrow> (node \<times> node \<times> effect list) outcome"
  and syncChildren ::
    "element \<Rightarrow> node list \<Rightarrow> node list \<Rightarrow> string \<Rightarrow> obj option \<Rightarrow> nat \<Rightarrow> nat
      \<Rightarrow> (node list \<times> node list \<times> effect list) outcome"
where
  "syncShapeStyle e (Group t a children) targetShape state animateCfg index =
     (if children = [] then Returned (Group t a children, targetShape, [])
      else
        (case targetShape of
           Leaf tt ta \<Rightarrow> Threw TypeError (Group t a children, targetShape, [])
         | Group tt ta newChildren \<Rightarrow>
             (case syncChildren e children newChildren state animateCfg index 0 of
                Threw err (cs, ncs, fx) \<Rightarrow> Threw err (Group t a cs, Group tt ta ncs, fx)
              | Returned (cs, ncs, fx) \<Rightarrow> Returned (Group t a cs, Group tt ta ncs, fx))))"
| "syncShapeStyle e (Leaf t a) targetShape state animateCfg index =
     (let stateStyle =
            (if state \<noteq> [] then Some (getStateStyle e state (shapeKey t index)) else None);
          target =
            (case stateStyle of
               None \<Rightarrow> targetShape
             | Some ss \<Rightarrow> attr (ss_style ss) targetShape);
          stateAnimate =
            (case stateStyle of None \<Rightarrow> SAUndefined | Some ss \<Rightarrow> ss_animate ss);
          newAttrs = getReplaceAttrs a (node_attrs target)
      in case animateCfg of
           Some cfg \<Rightarrow> Returned (Leaf t a, target, [DoAnimate cfg newAttrs])
         | None \<Rightarrow>
             if stateAnimate = SANull then Returned (Leaf t (assign a newAttrs), target, [])
             else if animate_truthy (animateOption e)
             then Returned (Leaf t a, target, [StopAnimate, Animate newAttrs 300])
             else Returned (Leaf t (assign a newAttrs), target, []))"
| "syncChildren e [] newChildren state animateCfg index i = Returned ([], newChildren, [])"
| "syncChildren e (c # cs) [] state animateCfg index i = Threw TypeError (c # cs, [], [])"
| "syncChildren e (c # cs) (n # ns) state animateCfg index i =
     (case syncShapeStyle e c n state animateCfg (index + i) of
        Threw err (c', n', fx) \<Rightarrow> Threw err (c' # cs, n' # ns, fx)
      | Returned (c', n', fx) \<Rightarrow>
          (case syncChildren e cs ns state animateCfg index (Suc i) of
             Threw err (cs', ns', fx') \<Rightarrow> Threw err (c' # cs', n' # ns', fx @ fx')
           | Returned (cs', ns', fx') \<Rightarrow> Returned (c' # cs', n' # ns', fx @ fx')))"

text \<open>
  The scratch leaves \<open>ns\<close> after each was given the state style found under the key
  of the live leaf beside it in \<open>ls\<close>, for the index \<open>index\<close> plus the sum of the
  positions on the path beside it in \<open>ps\<close>.
\<close>

definition styled ::
    "element \<Rightarrow> string \<Rightarrow> nat \<Rightarrow> node list \<Rightarrow> nat list list \<Rightarrow> node list \<Rightarrow> node list" where
  "styled e state index ls ps ns =
     map (\<lambda>(l, p, n).
            attr (ss_style (getStateStyle e state
                    (shapeKey (node_tags l) (index + sum_list p)))) n)
       (zip ls (zip ps ns))"

subsection \<open>Drawing, updating, destroying\<close>

text \<open>\<open>setShapeInfo(shape, data)\<close>: annotate every node of the tree.\<close>

fun setShapeInfo :: "shapeInfo \<Rightarrow> node \<Rightarrow> node" where
  "setShapeInfo d (Leaf t a) = Leaf (t\<lparr>t_origin := Some d, t_element := True\<rparr>) a"
| "setShapeInfo d (Group t a cs) =
     Group (t\<lparr>t_origin := Some d, t_element := True\<rparr>) a (map (setShapeInfo d) cs)"

text \<open>
  Modelled from the spec: \<open>changeVisible\<close> of the base class \<open>Base\<close>, which is not
  among the sources. It toggles the visibility flag.
\<close>

definition super_changeVisible :: "bool \<Rightarrow> element \<Rightarrow> element" where
  "super_changeVisible v e = e\<lparr>visible := v\<rparr>"


text \<open>\<open>changeVisible(visible)\<close>.\<close>

definition changeVisible :: "bool \<Rightarrow> element \<Rightarrow> element" where
  "changeVisible v e =
     (let e1 = super_changeVisible v e
      in e1\<lparr>shape := map_option (\<lambda>(i, s). (i, set_visible v s)) (shape e1),
            labelShape := map_option (map (set_visible v)) (labelShape e1)\<rparr>)"

text \<open>\<open>!shape.get('name')\<close>.\<close>

definition no_name :: "node \<Rightarrow> bool" where
  "no_name n = (case t_name (node_tags n) of None \<Rightarrow> True | Some s \<Rightarrow> s = [])"

text \<open>
  The private \<open>drawShape(model, isUpdate)\<close>: the factory draws into the container;
  the new shape is the container's last child, under a fresh identifier.
\<close>

definition drawShape :: "shapeInfo \<Rightarrow> bool \<Rightarrow> element \<Rightarrow> element" where
  "drawShape m isUpdate e =
     (case factory_drawShape (shapeFactory e) (shapeType e) (Some m) of
        None \<Rightarrow> e\<lparr>shape := None\<rparr>
      | Some s0 \<Rightarrow>
          (let i = fresh_id (container e);
               s1 = setShapeInfo m s0;
               s2 = (if no_name s1
                     then map_tags (\<lambda>t. t\<lparr>t_name := Some (geometryType (shapeFactory e))\<rparr>) s1
                     else s1);
               s3 = map_tags (\<lambda>t. t\<lparr>t_inheritNames := [''element'']\<rparr>) s2;
               animateType = (if isUpdate then ''enter'' else ''appear'')
           in e\<lparr>container := container e @ [i],
                shape := Some (i, s3),
                effects := effects e @
                  (case getAnimateCfg e animateType of
                     None \<Rightarrow> []
                   | Some cfg \<Rightarrow> [DoAnimate cfg (node_attrs s3)])\<rparr>))"

definition draw :: "shapeInfo \<Rightarrow> bool \<Rightarrow> element \<Rightarrow> element" where
  "draw m isUpdate e =
     (let e1 = e\<lparr>model := Some m, data := Some (si_data m), shapeType := getShapeType m\<rparr>;
          e2 = drawShape m isUpdate e1
      in if \<not> visible e2 then changeVisible False e2 else e2)"

text \<open>\<open>getOffscreenGroup()\<close>: the children of the scratch group, created when missing.\<close>

definition getOffscreenGroup :: "element \<Rightarrow> node list" where
  "getOffscreenGroup e = (case offscreenGroup e of None \<Rightarrow> [] | Some g \<Rightarrow> g)"

text \<open>
  \<open>update(model)\<close>. The scratch shape stays a child of the scratch group. A factory
  that returns nothing makes \<open>newShape.set\<close> throw, after the new model was stored and
  the live shape annotated with it.
\<close>

definition update :: "shapeInfo \<Rightarrow> element \<Rightarrow> element outcome" where
  "update m e =
     (case shape e of
        None \<Rightarrow> Returned e
      | Some (i, s) \<Rightarrow>
          (let s1 = setShapeInfo m s;
               og = getOffscreenGroup e;
               e1 = e\<lparr>model := Some m, data := Some (si_data m), shapeType := getShapeType m,
                      shape := Some (i, s1), offscreenGroup := Some og\<rparr>
           in case factory_drawShape (shapeFactory e1) (shapeType e1) (Some m) of
                None \<Rightarrow> Threw TypeError e1
              | Some n0 \<Rightarrow>
                  (let newShape = map_tags (\<lambda>t. t\<lparr>t_data := data e1, t_origin := Some m\<rparr>) n0
                   in case syncShapeStyle e1 s1 newShape [] (getAnimateCfg e1 ''update'') 0 of
                        Threw err (s2, n2, fx) \<Rightarrow>
                          Threw err (e1\<lparr>shape := Some (i, s2),
                                       offscreenGroup := Some (og @ [n2]),
                                       effects := effects e1 @ fx\<rparr>)
                      | Returned (s2, n2, fx) \<Rightarrow>
                          Returned (e1\<lparr>shape := Some (i, s2),
                                       offscreenGroup := Some (og @ [n2]),
                                       effects := effects e1 @ fx\<rparr>))))"


subsection \<open>States\<close>

text \<open>
  \<open>states.forEach((state) => this.syncShapeStyle(shape, offscreenShape, state, null))\<close>:
  one pass per state over the same two trees.
\<close>

fun syncStates ::
    "element \<Rightarrow> node \<Rightarrow> node \<Rightarrow> string list \<Rightarrow> (node \<times> node \<times> effect list) outcome" where
  "syncStates e s off [] = Returned (s, off, [])"
| "syncStates e s off (st # sts) =
     (case syncShapeStyle e s off st None 0 of
        Threw err (s1, off1, fx1) \<Rightarrow> Threw err (s1, off1, fx1)
      | Returned (s1, off1, fx1) \<Rightarrow>
          (case syncStates e s1 off1 sts of
             Threw err (s2, off2, fx2) \<Rightarrow> Threw err (s2, off2, fx1 @ fx2)
           | Returned (s2, off2, fx2) \<Rightarrow> Returned (s2, off2, fx1 @ fx2)))"

text \<open>
  \<open>setState(stateName, stateStatus)\<close>. After the two early returns the code changes
  the state list and then uses the shape without a test. With no shape it throws a
  TypeError: at \<open>shape.toFront()\<close> or \<open>shape.toBack()\<close> for the states \<open>active\<close>
  and \<open>selected\<close>; for any other state after the factory was called for a scratch
  shape (which stays in the scratch group), at \<open>sourceShape.isGroup()\<close>. With a shape,
  a factory that returns nothing for the scratch shape makes the first
  \<open>syncShapeStyle\<close> throw. When no call throws, the scratch shape is removed from the
  scratch group again and the event is emitted.
\<close>

definition setState :: "string \<Rightarrow> bool \<Rightarrow> element \<Rightarrow> element outcome" where
  "setState stateName stateStatus e =
     (if stateStatus \<and> stateName \<in> set (states e) then Returned e
      else if \<not> stateStatus \<and> stateName \<notin> set (states e) then Returned e
      else
        (let states' =
               (if stateStatus then states e @ [stateName]
                else remove1 stateName (states e));
             e0 = e\<lparr>states := states'\<rparr>;
             og = getOffscreenGroup e
         in case shape e of
              None \<Rightarrow>
                if stateName = ''active'' \<or> stateName = ''selected''
                then Threw TypeError e0
                else Threw TypeError
                       (e0\<lparr>offscreenGroup := Some
                             (og @ (case factory_drawShape (shapeFactory e) (shapeType e)
                                           (model e) of
                                      None \<Rightarrow> []
                                    | Some offscreenShape \<Rightarrow> [offscreenShape]))\<rparr>)
            | Some (i, s) \<Rightarrow>
                (let container' =
                       (if stateName = ''active'' \<or> stateName = ''selected''
                        then (if stateStatus then toFront i (container e)
                              else toBack i (container e))
                        else container e);
                     e1 = e0\<lparr>container := container', offscreenGroup := Some og\<rparr>
                 in case factory_drawShape (shapeFactory e1) (shapeType e1) (model e1) of
                      None \<Rightarrow> Threw TypeError e1
                    | Some offscreenShape \<Rightarrow>
                        (case (if states' \<noteq> [] then syncStates e1 s offscreenShape states'
                               else syncShapeStyle e1 s offscreenShape [] None 0) of
                           Threw err (s', off', fx) \<Rightarrow>
                             Threw err (e1\<lparr>shape := Some (i, s'),
                                          offscreenGroup := Some (og @ [off']),
                                          effects := effects e1 @ fx\<rparr>)
                         | Returned (s', off', fx) \<Rightarrow>
                             Returned (e1\<lparr>shape := Some (i, s'),
                                         effects := effects e1 @ fx @
                                           [Emit stateName stateStatus,
                                            Propagate stateName stateStatus]\<rparr>)))))"

text \<open>
  \<open>clearStates()\<close>. \<open>each\<close> of @antv/util visits the indices below the length the
  array had when the loop started and reads the array again at every step, while
  \<open>setState\<close> removes from that same array: \<open>clearStates_loop i n\<close> is the loop at
  index \<open>i\<close> with \<open>n\<close> steps to go. An index past the end reads \<open>undefined\<close>, which
  is in no state list, so that \<open>setState(undefined, false)\<close> returns at once.
\<close>

fun clearStates_loop :: "nat \<Rightarrow> nat \<Rightarrow> element \<Rightarrow> element outcome" where
  "clearStates_loop i 0 e = Returned e"
| "clearStates_loop i (Suc n) e =
     (if i < length (states e) then
        (case setState (states e ! i) False e of
           Threw err e' \<Rightarrow> Threw err e'
         | Returned e' \<Rightarrow> clearStates_loop (Suc i) n e')
      else clearStates_loop (Suc i) n e)"

definition clearStates :: "element \<Rightarrow> element outcome" where
  "clearStates e =
     (case clearStates_loop 0 (length (states e)) e of
        Threw err e' \<Rightarrow> Threw err e'
      | Returned e' \<Rightarrow> Returned (e'\<lparr>states := []\<rparr>))"

text \<open>
  What the specification compares \<open>clearStates\<close> with: \<open>setState(name, false)\<close> for
  each of the given names in turn.
\<close>

fun disableAll :: "string list \<Rightarrow> element \<Rightarrow> element outcome" where
  "disableAll [] e = Returned e"
| "disableAll (st # sts) e =
     (case setState st False e of
        Threw err e' \<Rightarrow> Threw err e'
      | Returned e' \<Rightarrow> disableAll sts e')"

definition hasState :: "element \<Rightarrow> string \<Rightarrow> bool" where
  "hasState e stateName = (stateName \<in> set (states e))"

definition getStates :: "element \<Rightarrow> string list" where
  "getStates e = states e"

definition getData :: "element \<Rightarrow> jsval option" where
  "getData e = data e"

definition getModel :: "element \<Rightarrow> shapeInfo option" where
  "getModel e = model e"

subsection \<open>Bounding box\<close>

text \<open>
  \<open>getBBox()\<close>, given the scene graph's \<open>getCanvasBBox\<close>. \<open>Math.min\<close> and
  \<open>Math.max\<close> are the minimum and maximum of two numbers (NaN is not modelled).
\<close>

definition zero_bbox :: bbox where
  "zero_bbox =
     \<lparr>bb_x = 0, bb_y = 0, bb_minX = 0, bb_minY = 0, bb_maxX = 0, bb_maxY = 0,
      bb_width = 0, bb_height = 0\<rparr>"

definition union_label :: "bbox \<Rightarrow> bbox \<Rightarrow> bbox" where
  "union_label labelBBox b =
     b\<lparr>bb_x := min (bb_x labelBBox) (bb_x b),
       bb_y := min (bb_y labelBBox) (bb_y b),
       bb_minX := min (bb_minX labelBBox) (bb_minX b),
       bb_minY := min (bb_minY labelBBox) (bb_minY b),
       bb_maxX := max (bb_maxX labelBBox) (bb_maxX b),
       bb_maxY := max (bb_maxY labelBBox) (bb_maxY b)\<rparr>"

definition getBBox :: "(node \<Rightarrow> bbox) \<Rightarrow> element \<Rightarrow> bbox" where
  "getBBox getCanvasBBox e =
     (let bbox0 = (case shape e of None \<Rightarrow> zero_bbox | Some (i, s) \<Rightarrow> getCanvasBBox s);
          bbox1 =
            (case labelShape e of
               None \<Rightarrow> bbox0
             | Some labels \<Rightarrow> fold (\<lambda>label b. union_label (getCanvasBBox label) b) labels bbox0)
      in bbox1\<lparr>bb_width := bb_maxX bbox1 - bb_minX bbox1,
               bb_height := bb_maxY bbox1 - bb_minY bbox1\<rparr>)"

section \<open>Example models and elements\<close>

text \<open>Concrete inputs, used to run the definitions above.\<close>

definition cfgNullStroke :: shapeInfo where
  "cfgNullStroke =
     \<lparr>si_style = Some [(''stroke'', JNull)], si_defaultStyle = None,
      si_color = Some ''red'', si_size = None, si_shape = NoShape, si_data = JUndefined\<rparr>"

definition cfgRadius :: shapeInfo where
  "cfgRadius =
     \<lparr>si_style = Some [(''r'', JNum 5)],
      si_defaultStyle = Some [(''r'', JNum 2), (''fill'', JStr ''grey'')],
      si_color = Some ''blue'', si_size = Some 8, si_shape = ShapeName ''point'',
      si_data = JUndefined\<rparr>"

definition tags0 :: tags where
  "tags0 =
     \<lparr>t_name = None, t_visible = True, t_origin = None, t_data = None,
      t_element = False, t_inheritNames = []\<rparr>"

text \<open>
  A factory that knows the shape type \<open>point\<close>: one unnamed leaf that carries the
  model's style as its attributes. For any other shape type it draws nothing.
\<close>

definition pointFactory :: "string option \<Rightarrow> shapeInfo option \<Rightarrow> node option" where
  "pointFactory st m =
     (if st = Some ''point''
      then Some (Leaf tags0 (case m of None \<Rightarrow> [] | Some mm \<Rightarrow> spread [] (si_style mm)))
      else None)"

text \<open>State styles: \<open>active\<close> strokes in black, \<open>selected\<close> fills in red.\<close>

definition exStateCfg :: "string option \<Rightarrow> string \<Rightarrow> stateCfg" where
  "exStateCfg st stateName =
     (if stateName = ''active''
      then \<lparr>cfg_animate = SAUndefined, cfg_style = StyleObj [(''stroke'', JStr ''black'')]\<rparr>
      else if stateName = ''selected''
      then \<lparr>cfg_animate = SAUndefined, cfg_style = StyleObj [(''fill'', JStr ''red'')]\<rparr>
      else \<lparr>cfg_animate = SAUndefined, cfg_style = StyleUndefined\<rparr>)"

text \<open>A freshly constructed element: nothing drawn, animation switched off.\<close>

definition el0 :: element where
  "el0 =
     \<lparr>shapeFactory =
        \<lparr>geometryType = ''point'', coordinate = ''rect'', factory_drawShape = pointFactory\<rparr>,
      stateCfgOf = exStateCfg,
      animateOption = AnimateBool False,
      getDefaultAnimateCfg = (\<lambda>g c t. None),
      container = [],
      shape = None,
      labelShape = None,
      shapeType = None,
      model = None,
      data = None,
      states = [],
      offscreenGroup = None,
      visible = True,
      effects = []\<rparr>"

definition m0 :: shapeInfo where
  "m0 =
     \<lparr>si_style = Some [(''fill'', JStr ''blue''), (''r'', JNum 5)], si_defaultStyle = None,
      si_color = None, si_size = None, si_shape = ShapeName ''point'', si_data = JNum 1\<rparr>"

text \<open>The leaf that \<open>pointFactory\<close> draws for \<open>m0\<close>, as \<open>draw\<close> annotates it.\<close>

definition exPoint :: "obj \<Rightarrow> node" where
  "exPoint a =
     Leaf \<lparr>t_name = Some ''point'', t_visible = True, t_origin = Some m0, t_data = None,
           t_element = True, t_inheritNames = [''element'']\<rparr> a"

text \<open>
  The element after \<open>draw(m0)\<close>, then after \<open>setState('active', true)\<close>, then after
  \<open>setState('selected', true)\<close>; and the element after a \<open>draw\<close> for which the
  factory drew nothing.
\<close>

definition exDrawn :: element where
  "exDrawn = draw m0 False el0"

definition exActive :: element where
  "exActive =
     (case setState ''active'' True exDrawn of Threw err e \<Rightarrow> exDrawn | Returned e \<Rightarrow> e)"

definition exSelected :: element where
  "exSelected =
     (case setState ''selected'' True exActive of
        Threw err e \<Rightarrow> exActive
      | Returned e \<Rightarrow> e)"

definition exBlank :: element where
  "exBlank = draw (m0\<lparr>si_shape := ShapeName ''line''\<rparr>) False el0"

text \<open>Animation options: only \<open>enter\<close> configured; and a fuller configuration.\<close>

definition exEnterOnly :: element where
  "exEnterOnly =
     el0\<lparr>animateOption := AnimateObj [(''enter'', KindCfg [(''duration'', JNum 100)])]\<rparr>"

definition exDefaultAnimate :: "string \<Rightarrow> string \<Rightarrow> string \<Rightarrow> obj option" where
  "exDefaultAnimate g c t =
     (if t = ''update'' then Some [(''duration'', JNum 300), (''easing'', JStr ''linear'')]
      else if t = ''leave'' then Some [(''animation'', JStr ''fade-out'')]
      else None)"

definition exAnimated :: element where
  "exAnimated =
     el0\<lparr>animateOption :=
           AnimateObj [(''update'', KindCfg [(''duration'', JNum 500)]), (''appear'', KindFalse)],
         getDefaultAnimateCfg := exDefaultAnimate\<rparr>"


text \<open>
  A scene graph whose bounding boxes are read off the attributes \<open>x\<close>, \<open>y\<close>,
  \<open>width\<close> and \<open>height\<close>, and an element with a rectangle and two labels.
\<close>

definition attr_num :: "node \<Rightarrow> string \<Rightarrow> real" where
  "attr_num n k = (case get_prop (node_attrs n) k of JNum z \<Rightarrow> real_of_int z | _ \<Rightarrow> 0)"

definition exCanvasBBox :: "node \<Rightarrow> bbox" where
  "exCanvasBBox n =
     \<lparr>bb_x = attr_num n ''x'', bb_y = attr_num n ''y'',
      bb_minX = attr_num n ''x'', bb_minY = attr_num n ''y'',
      bb_maxX = attr_num n ''x'' + attr_num n ''width'',
      bb_maxY = attr_num n ''y'' + attr_num n ''height'',
      bb_width = attr_num n ''width'', bb_height = attr_num n ''height''\<rparr>"

definition exRect :: node where
  "exRect =
     Leaf tags0 [(''x'', JNum 10), (''y'', JNum 20), (''width'', JNum 30), (''height'', JNum 40)]"

definition exLabel1 :: node where
  "exLabel1 =
     Group tags0 [(''x'', JNum 0), (''y'', JNum 25), (''width'', JNum 5), (''height'', JNum 5)] []"

definition exLabel2 :: node where
  "exLabel2 =
     Group tags0
       [(''x'', JNum 35), (''y'', JNum 70), (''width'', JNum 10), (''height'', JNum 10)] []"

definition exLabelled :: element where
  "exLabelled =
     el0\<lparr>container := [1], shape := Some (1, exRect),
         labelShape := Some [exLabel1, exLabel2], states := [''active'']\<rparr>"

text \<open>
  A state style with one entry per key, each writing the key it was found under into
  the attribute \<open>key\<close>; a group of two groups of two unnamed leaves, and a group of two
  unnamed leaves.
\<close>

definition exKeyStyle :: "string option \<Rightarrow> string \<Rightarrow> stateCfg" where
  "exKeyStyle st stateName =
     \<lparr>cfg_animate = SANull,
      cfg_style = StyleObj
        [(''0'', JObj [(''key'', JNum 0)]), (''1'', JObj [(''key'', JNum 1)]),
         (''2'', JObj [(''key'', JNum 2)]), (''3'', JObj [(''key'', JNum 3)])]\<rparr>"

definition exKeyed :: element where
  "exKeyed = el0\<lparr>stateCfgOf := exKeyStyle\<rparr>"

definition exTree :: node where
  "exTree =
     Group tags0 []
       [Group tags0 [] [Leaf tags0 [], Leaf tags0 []],
        Group tags0 [] [Leaf tags0 [], Leaf tags0 []]]"

definition exFlat :: node where
  "exFlat = Group tags0 [] [Leaf tags0 [], Leaf tags0 []]"

section \<open>Properties of the style resolver\<close>

lemma map_of_set_prop: "map_of (set_prop k v ob) = (map_of ob)(k \<mapsto> v)"
  by (induction ob) (auto simp: fun_eq_iff)

lemma get_prop_set_prop:
  "get_prop (set_prop k v ob) k' = (if k' = k then v else get_prop ob k')"
  by (simp add: get_prop_def map_of_set_prop)

lemma map_of_filter_key:
  "map_of (filter (\<lambda>p. fst p \<noteq> k) b) k' = (if k' = k then None else map_of b k')"
  by (induction b) auto

lemma map_of_assign:
  "map_of (assign a b) k = (case map_of b k of Some v \<Rightarrow> Some v | None \<Rightarrow> map_of a k)"
proof (induction a b rule: assign.induct)
  case (1 a)
  then show ?case by simp
next
  case (2 a k' v' b)
  then show ?case
    by (simp add: map_of_set_prop map_of_filter_key split: option.splits)
qed

lemma get_prop_assign:
  "get_prop (assign a b) k = (case map_of b k of Some v \<Rightarrow> v | None \<Rightarrow> get_prop a k)"
  by (simp add: get_prop_def map_of_assign split: option.splits)

lemma attrs0_lookup:
  "get_prop (spread (spread [] d) st) k =
     (case st of
        None \<Rightarrow> get d k
      | Some kvs \<Rightarrow> (case map_of kvs k of Some v \<Rightarrow> v | None \<Rightarrow> get d k))"
  by (cases d; cases st)
     (simp_all add: get_prop_def get_def spread_def map_of_assign split: option.splits)

text \<open>What \<open>getStyle\<close> returns, read attribute by attribute.\<close>

lemma getStyle_lookup:
  "get_prop (getStyle cfg isStroke isFill sizeName) k =
     (if k = sizeName \<and> sizeName \<noteq> [] \<and> isNil (get (si_style cfg) sizeName)
          \<and> si_size cfg \<noteq> None
      then JNum (the (si_size cfg))
      else if k = ''fill'' \<and> color_truthy (si_color cfg) \<and> isFill
          \<and> \<not> truthy (get (si_style cfg) ''fill'')
      then JStr (the (si_color cfg))
      else if k = ''stroke'' \<and> color_truthy (si_color cfg) \<and> isStroke
          \<and> \<not> truthy (get (si_style cfg) ''stroke'')
      then JStr (the (si_color cfg))
      else (case si_style cfg of
              None \<Rightarrow> get (si_defaultStyle cfg) k
            | Some st \<Rightarrow>
                (case map_of st k of Some v \<Rightarrow> v | None \<Rightarrow> get (si_defaultStyle cfg) k)))"
  unfolding getStyle_def Let_def
  by (cases "k = sizeName"; cases "k = ''stroke''"; cases "k = ''fill''")
     (auto simp: get_prop_set_prop attrs0_lookup)

text \<open>
  C10 (as stated, refuted): a style that sets \<open>stroke\<close> to \<open>null\<close> does set the
  attribute, and the colour shorthand still overwrites it, because the guard
  \<open>!get(style, 'stroke')\<close> tests the value for truthiness, not the key for presence.
\<close>

theorem getStyle_null_style_overridden:
  "map_of (the (si_style cfgNullStroke)) ''stroke'' = Some JNull
     \<and> get_prop (getStyle cfgNullStroke True False []) ''stroke'' = JStr ''red''"
  by (simp add: cfgNullStroke_def getStyle_def Let_def spread_def get_def get_prop_def
      color_truthy_def)

text \<open>
  C10 (amended): for a size attribute name without a dot, every attribute of the result
  is the size (under \<open>sizeName\<close>, when \<open>sizeName\<close> is not empty, the style's value for
  it is nil and the size is not), else the colour (under \<open>fill\<close> or \<open>stroke\<close>, when the
  colour is truthy, the flag is set and the style's value for the attribute is falsy),
  else the style's value where the style has the key, else the default style's value.
  So an attribute the style gives a truthy value keeps that value.
\<close>

theorem getStyle_truthy_style_wins:
  assumes "CHR ''.'' \<notin> set sizeName"
  shows "get_prop (getStyle cfg isStroke isFill sizeName) k =
     (if k = sizeName \<and> sizeName \<noteq> [] \<and> isNil (get (si_style cfg) sizeName)
          \<and> si_size cfg \<noteq> None
      then JNum (the (si_size cfg))
      else if k = ''fill'' \<and> color_truthy (si_color cfg) \<and> isFill
          \<and> \<not> truthy (get (si_style cfg) ''fill'')
      then JStr (the (si_color cfg))
      else if k = ''stroke'' \<and> color_truthy (si_color cfg) \<and> isStroke
          \<and> \<not> truthy (get (si_style cfg) ''stroke'')
      then JStr (the (si_color cfg))
      else (case si_style cfg of
              None \<Rightarrow> get (si_defaultStyle cfg) k
            | Some st \<Rightarrow>
                (case map_of st k of Some v \<Rightarrow> v | None \<Rightarrow> get (si_defaultStyle cfg) k)))
    \<and> (truthy (get (si_style cfg) k) \<longrightarrow>
          get_prop (getStyle cfg isStroke isFill sizeName) k = get (si_style cfg) k)"
proof -
  have user: "get_prop (getStyle cfg isStroke isFill sizeName) k = get (si_style cfg) k"
    if t: "truthy (get (si_style cfg) k)"
  proof -
    from t obtain st where st: "si_style cfg = Some st"
      by (cases "si_style cfg") (simp_all add: get_def)
    from t st obtain v where v: "map_of st k = Some v"
      by (cases "map_of st k") (simp_all add: get_def get_prop_def)
    have nn: "\<not> isNil (get (si_style cfg) k)"
      using t by (cases "get (si_style cfg) k") simp_all
    have base:
      "(case si_style cfg of
          None \<Rightarrow> get (si_defaultStyle cfg) k
        | Some st \<Rightarrow>
            (case map_of st k of Some v \<Rightarrow> v | None \<Rightarrow> get (si_defaultStyle cfg) k))
       = get (si_style cfg) k"
      by (simp add: st v get_def get_prop_def)
    show ?thesis
      unfolding getStyle_lookup base using t nn by auto
  qed
  show ?thesis
    using user by (simp only: getStyle_lookup) simp
qed

theorem getStyle_truthy_style_wins_witness:
  "CHR ''.'' \<notin> set ''r'' \<and> truthy (get (si_style cfgRadius) ''r'')
     \<and> get_prop (getStyle cfgRadius True True ''r'') ''r'' = JNum 5
     \<and> get_prop (getStyle cfgRadius True True ''r'') ''fill'' = JStr ''blue''"
  using getStyle_truthy_style_wins [of "''r''" cfgRadius True True "''r''"]
    getStyle_truthy_style_wins [of "''r''" cfgRadius True True "''fill''"]
  by (simp add: cfgRadius_def get_def get_prop_def color_truthy_def)

section \<open>Animation-config resolution\<close>

text \<open>
  C4 (as stated, refuted): the user configured only \<open>enter\<close>, so there is no user
  configuration for \<open>update\<close>, and there is no built-in default either; the code still
  returns a configuration, the empty object, because its second test is
  \<open>animate === true\<close> and the option here is an object.
\<close>

theorem getAnimateCfg_empty_config:
  "animate_kind (animateOption exEnterOnly) ''update'' = None
   \<and> getDefaultAnimateCfg exEnterOnly (geometryType (shapeFactory exEnterOnly))
        (coordinate (shapeFactory exEnterOnly)) ''update'' = None
   \<and> getAnimateCfg exEnterOnly ''update'' = Some []"
  by (simp add: exEnterOnly_def el0_def getAnimateCfg_def animate_kind_def animate_truthy_def
      isEmpty_def kind_cfg_def spread_def Let_def)

text \<open>
  C4 (amended): for every transition kind, the resolution returns no animation when the
  animation option is falsy, when the option is exactly \<open>true\<close> and the built-in default
  is empty, or when the user set this kind to \<open>false\<close> or \<open>null\<close>; in every other case
  it returns a configuration whose every field is the user's value for this kind where
  the user gives the field, and the built-in default's value otherwise.
\<close>

theorem getAnimateCfg_resolution:
  "(\<not> animate_truthy (animateOption e) \<longrightarrow> getAnimateCfg e t = None)
   \<and> (animateOption e = AnimateBool True
        \<and> isEmpty (getDefaultAnimateCfg e (geometryType (shapeFactory e))
                     (coordinate (shapeFactory e)) t)
       \<longrightarrow> getAnimateCfg e t = None)
   \<and> (animate_kind (animateOption e) t = Some KindFalse
        \<or> animate_kind (animateOption e) t = Some KindNull
       \<longrightarrow> getAnimateCfg e t = None)
   \<and> (animate_truthy (animateOption e)
        \<and> \<not> (animateOption e = AnimateBool True
             \<and> isEmpty (getDefaultAnimateCfg e (geometryType (shapeFactory e))
                          (coordinate (shapeFactory e)) t))
        \<and> animate_kind (animateOption e) t \<noteq> Some KindFalse
        \<and> animate_kind (animateOption e) t \<noteq> Some KindNull
       \<longrightarrow> (\<exists>cfg. getAnimateCfg e t = Some cfg
             \<and> (\<forall>k. get_prop cfg k =
                   (case kind_cfg (animate_kind (animateOption e) t) of
                      None \<Rightarrow> get (getDefaultAnimateCfg e (geometryType (shapeFactory e))
                                 (coordinate (shapeFactory e)) t) k
                    | Some user \<Rightarrow>
                        (case map_of user k of
                           Some v \<Rightarrow> v
                         | None \<Rightarrow> get (getDefaultAnimateCfg e (geometryType (shapeFactory e))
                                     (coordinate (shapeFactory e)) t) k)))))"
  by (simp add: getAnimateCfg_def Let_def attrs0_lookup)

text \<open>
  The four cases of C4 at concrete elements: the switch off; the switch \<open>true\<close> with no
  default; the kind set to \<open>false\<close>; a user duration merged over the default.
\<close>

theorem getAnimateCfg_resolution_witness:
  "\<not> animate_truthy (animateOption el0) \<and> getAnimateCfg el0 ''update'' = None
   \<and> animateOption (el0\<lparr>animateOption := AnimateBool True\<rparr>) = AnimateBool True
   \<and> getAnimateCfg (el0\<lparr>animateOption := AnimateBool True\<rparr>) ''update'' = None
   \<and> animate_kind (animateOption exAnimated) ''appear'' = Some KindFalse
   \<and> getAnimateCfg exAnimated ''appear'' = None
   \<and> animate_kind (animateOption exAnimated) ''update''
        = Some (KindCfg [(''duration'', JNum 500)])
   \<and> getAnimateCfg exAnimated ''update''
        = Some [(''duration'', JNum 500), (''easing'', JStr ''linear'')]"
  using getAnimateCfg_resolution [of el0 "''update''"]
    getAnimateCfg_resolution [of "el0\<lparr>animateOption := AnimateBool True\<rparr>" "''update''"]
    getAnimateCfg_resolution [of exAnimated "''appear''"]
    getAnimateCfg_resolution [of exAnimated "''update''"]
  by (simp add: exAnimated_def exDefaultAnimate_def el0_def getAnimateCfg_def animate_kind_def
      animate_truthy_def isEmpty_def kind_cfg_def spread_def Let_def)

section \<open>The example elements, evaluated\<close>

lemmas ex_defs = el0_def m0_def pointFactory_def exStateCfg_def tags0_def exPoint_def

lemmas op_defs = draw_def drawShape_def getShapeType_def Let_def spread_def fresh_id_def
  no_name_def getAnimateCfg_def animate_truthy_def changeVisible_def super_changeVisible_def
  setState_def toFront_def toBack_def getOffscreenGroup_def getStateStyle_def shapeKey_def
  key_string_def getReplaceAttrs_def get_prop_def

lemma exDrawn_eq:
  "exDrawn = el0
     \<lparr>container := [1],
      shape := Some (1, exPoint [(''fill'', JStr ''blue''), (''r'', JNum 5)]),
      shapeType := Some ''point'', model := Some m0, data := Some (JNum 1)\<rparr>"
  by (simp add: exDrawn_def ex_defs op_defs)

lemma exActive_eq:
  "setState ''active'' True exDrawn = Returned exActive"
  "exActive = exDrawn
     \<lparr>shape := Some (1, exPoint [(''fill'', JStr ''blue''), (''r'', JNum 5),
                                (''stroke'', JStr ''black'')]),
      states := [''active''], offscreenGroup := Some [],
      effects := [Emit ''active'' True, Propagate ''active'' True]\<rparr>"
  by (simp_all add: exActive_def exDrawn_eq ex_defs op_defs)

lemma exSelected_eq:
  "setState ''selected'' True exActive = Returned exSelected"
  "exSelected = exActive
     \<lparr>shape := Some (1, exPoint [(''fill'', JStr ''red''), (''r'', JNum 5),
                                (''stroke'', JStr ''black'')]),
      states := [''active'', ''selected''],
      effects := [Emit ''active'' True, Propagate ''active'' True,
                  Emit ''selected'' True, Propagate ''selected'' True]\<rparr>"
  by (simp_all add: exSelected_def exActive_eq(2) exDrawn_eq ex_defs op_defs)

section \<open>Visibility\<close>

lemma all_attrs_set_visible: "all_attrs (set_visible v n) = all_attrs n"
  by (cases n) (simp_all add: set_visible_def)

lemma visible_set_visible: "t_visible (node_tags (set_visible v n)) = v"
  by (cases n) (simp_all add: set_visible_def)

text \<open>
  C8: \<open>changeVisible(v)\<close> sets the element's visibility flag to \<open>v\<close>; an owned shape
  stays the owned shape, under the same identifier, with its visibility \<open>v\<close> and the
  attributes of all its nodes as before; every label shape gets visibility \<open>v\<close> and
  keeps its attributes; the states, the model and the datum are unchanged.
\<close>

theorem changeVisible_frame:
  "visible (changeVisible v e) = v
   \<and> states (changeVisible v e) = states e
   \<and> model (changeVisible v e) = model e
   \<and> data (changeVisible v e) = data e
   \<and> (\<forall>i s. shape e = Some (i, s) \<longrightarrow>
         (\<exists>s'. shape (changeVisible v e) = Some (i, s')
            \<and> t_visible (node_tags s') = v
            \<and> all_attrs s' = all_attrs s))
   \<and> (shape e = None \<longrightarrow> shape (changeVisible v e) = None)
   \<and> (\<forall>labels. labelShape e = Some labels \<longrightarrow>
         (\<exists>labels'. labelShape (changeVisible v e) = Some labels'
            \<and> length labels' = length labels
            \<and> (\<forall>l \<in> set labels'. t_visible (node_tags l) = v)
            \<and> map all_attrs labels' = map all_attrs labels))"
  by (auto simp: changeVisible_def super_changeVisible_def all_attrs_set_visible
      visible_set_visible)

text \<open>C8 at an element with a rectangle, two labels and the state \<open>active\<close>, hidden.\<close>

theorem changeVisible_frame_witness:
  "shape exLabelled = Some (1, exRect) \<and> labelShape exLabelled = Some [exLabel1, exLabel2]
   \<and> visible (changeVisible False exLabelled) = False
   \<and> states (changeVisible False exLabelled) = [''active'']
   \<and> shape (changeVisible False exLabelled) = Some (1, set_visible False exRect)
   \<and> t_visible (node_tags (set_visible False exRect)) = False
   \<and> all_attrs (set_visible False exRect) = all_attrs exRect
   \<and> labelShape (changeVisible False exLabelled)
        = Some [set_visible False exLabel1, set_visible False exLabel2]
   \<and> map (\<lambda>l. t_visible (node_tags l)) (the (labelShape (changeVisible False exLabelled)))
        = [False, False]"
  using changeVisible_frame [of False exLabelled]
  by (simp add: exLabelled_def changeVisible_def super_changeVisible_def set_visible_def
      exRect_def exLabel1_def exLabel2_def el0_def)

section \<open>Destroy\<close>




section \<open>Bounding box\<close>

lemma Min_insert_min:
  fixes a b :: "'a::linorder"
  assumes "finite S"
  shows "Min (insert (min a b) S) = Min (insert a (insert b S))"
proof (cases "S = {}")
  case True
  then show ?thesis by (simp add: min.commute)
next
  case False
  with assms show ?thesis by (simp add: min.assoc)
qed

lemma Max_insert_max:
  fixes a b :: "'a::linorder"
  assumes "finite S"
  shows "Max (insert (max a b) S) = Max (insert a (insert b S))"
proof (cases "S = {}")
  case True
  then show ?thesis by (simp add: max.commute)
next
  case False
  with assms show ?thesis by (simp add: max.assoc)
qed

lemma fold_union_min:
  assumes f: "\<And>a b. f (union_label a b) = min (f a) (f b)"
  shows "f (fold (\<lambda>label b. union_label (g label) b) labels b0)
           = Min (f ` set (b0 # map g labels))"
proof (induction labels arbitrary: b0)
  case Nil
  then show ?case by simp
next
  case (Cons l labels)
  have "f (fold (\<lambda>label b. union_label (g label) b) (l # labels) b0)
          = Min (f ` set (union_label (g l) b0 # map g labels))"
    using Cons.IH [of "union_label (g l) b0"] by simp
  also have "\<dots> = Min (insert (min (f (g l)) (f b0)) (f ` set (map g labels)))"
    by (simp add: f)
  also have "\<dots> = Min (insert (f (g l)) (insert (f b0) (f ` set (map g labels))))"
    by (rule Min_insert_min) simp
  also have "\<dots> = Min (f ` set (b0 # map g (l # labels)))"
    by (simp add: insert_commute)
  finally show ?case .
qed

lemma fold_union_max:
  assumes f: "\<And>a b. f (union_label a b) = max (f a) (f b)"
  shows "f (fold (\<lambda>label b. union_label (g label) b) labels b0)
           = Max (f ` set (b0 # map g labels))"
proof (induction labels arbitrary: b0)
  case Nil
  then show ?case by simp
next
  case (Cons l labels)
  have "f (fold (\<lambda>label b. union_label (g label) b) (l # labels) b0)
          = Max (f ` set (union_label (g l) b0 # map g labels))"
    using Cons.IH [of "union_label (g l) b0"] by simp
  also have "\<dots> = Max (insert (max (f (g l)) (f b0)) (f ` set (map g labels)))"
    by (simp add: f)
  also have "\<dots> = Max (insert (f (g l)) (insert (f b0) (f ` set (map g labels))))"
    by (rule Max_insert_max) simp
  also have "\<dots> = Max (f ` set (b0 # map g (l # labels)))"
    by (simp add: insert_commute)
  finally show ?case .
qed

text \<open>
  C7: for an element that owns a shape and has a list of label shapes, \<open>getBBox()\<close>
  returns the union of the shape's canvas box and the labels' canvas boxes: \<open>minX\<close>,
  \<open>minY\<close>, \<open>x\<close> and \<open>y\<close> are the least of the members' values, \<open>maxX\<close> and \<open>maxY\<close>
  the greatest, and \<open>width\<close> and \<open>height\<close> are \<open>maxX - minX\<close> and \<open>maxY - minY\<close>.
\<close>

theorem getBBox_union:
  assumes "shape e = Some (i, s)" and "labelShape e = Some labels"
  shows "bb_minX (getBBox getCanvasBBox e)
           = Min (bb_minX ` set (getCanvasBBox s # map getCanvasBBox labels))
    \<and> bb_minY (getBBox getCanvasBBox e)
           = Min (bb_minY ` set (getCanvasBBox s # map getCanvasBBox labels))
    \<and> bb_maxX (getBBox getCanvasBBox e)
           = Max (bb_maxX ` set (getCanvasBBox s # map getCanvasBBox labels))
    \<and> bb_maxY (getBBox getCanvasBBox e)
           = Max (bb_maxY ` set (getCanvasBBox s # map getCanvasBBox labels))
    \<and> bb_x (getBBox getCanvasBBox e)
           = Min (bb_x ` set (getCanvasBBox s # map getCanvasBBox labels))
    \<and> bb_y (getBBox getCanvasBBox e)
           = Min (bb_y ` set (getCanvasBBox s # map getCanvasBBox labels))
    \<and> bb_width (getBBox getCanvasBBox e)
          = bb_maxX (getBBox getCanvasBBox e) - bb_minX (getBBox getCanvasBBox e)
    \<and> bb_height (getBBox getCanvasBBox e)
          = bb_maxY (getBBox getCanvasBBox e) - bb_minY (getBBox getCanvasBBox e)"
proof -
  let ?u = "fold (\<lambda>label b. union_label (getCanvasBBox label) b) labels (getCanvasBBox s)"
  have r: "getBBox getCanvasBBox e
      = ?u\<lparr>bb_width := bb_maxX ?u - bb_minX ?u, bb_height := bb_maxY ?u - bb_minY ?u\<rparr>"
    using assms by (simp add: getBBox_def Let_def)
  have "bb_minX ?u = Min (bb_minX ` set (getCanvasBBox s # map getCanvasBBox labels))"
    by (rule fold_union_min) (simp add: union_label_def)
  moreover have "bb_minY ?u = Min (bb_minY ` set (getCanvasBBox s # map getCanvasBBox labels))"
    by (rule fold_union_min) (simp add: union_label_def)
  moreover have "bb_x ?u = Min (bb_x ` set (getCanvasBBox s # map getCanvasBBox labels))"
    by (rule fold_union_min) (simp add: union_label_def)
  moreover have "bb_y ?u = Min (bb_y ` set (getCanvasBBox s # map getCanvasBBox labels))"
    by (rule fold_union_min) (simp add: union_label_def)
  moreover have "bb_maxX ?u = Max (bb_maxX ` set (getCanvasBBox s # map getCanvasBBox labels))"
    by (rule fold_union_max) (simp add: union_label_def)
  moreover have "bb_maxY ?u = Max (bb_maxY ` set (getCanvasBBox s # map getCanvasBBox labels))"
    by (rule fold_union_max) (simp add: union_label_def)
  ultimately show ?thesis
    by (simp add: r)
qed

text \<open>
  C7 at a rectangle from (10, 20) to (40, 60) with labels from (0, 25) to (5, 30) and
  from (35, 70) to (45, 80): the union runs from (0, 20) to (45, 80).
\<close>

theorem getBBox_union_witness:
  "shape exLabelled = Some (1, exRect) \<and> labelShape exLabelled = Some [exLabel1, exLabel2]
   \<and> bb_minX (getBBox exCanvasBBox exLabelled) = 0
   \<and> bb_minY (getBBox exCanvasBBox exLabelled) = 20
   \<and> bb_maxX (getBBox exCanvasBBox exLabelled) = 45
   \<and> bb_maxY (getBBox exCanvasBBox exLabelled) = 80
   \<and> bb_x (getBBox exCanvasBBox exLabelled) = 0
   \<and> bb_y (getBBox exCanvasBBox exLabelled) = 20
   \<and> bb_width (getBBox exCanvasBBox exLabelled) = 45
   \<and> bb_height (getBBox exCanvasBBox exLabelled) = 60"
proof -
  have h: "shape exLabelled = Some (1, exRect)"
    "labelShape exLabelled = Some [exLabel1, exLabel2]"
    by (simp_all add: exLabelled_def)
  show ?thesis
    using h getBBox_union [OF h, of exCanvasBBox]
    by (simp add: exCanvasBBox_def attr_num_def exRect_def exLabel1_def exLabel2_def
        get_prop_def)
qed

section \<open>Update\<close>

lemma update_shapeless: "shape e = None \<Longrightarrow> update m e = Returned e"
  by (simp add: update_def)

text \<open>
  C9: when the element owns a shape, \<open>update(model)\<close> throws a TypeError if the factory
  returns nothing for the new model, with the new model, datum and shape type already
  stored and the live shape already annotated; and so it returns only if the factory
  returned a shape.
\<close>

theorem update_needs_scratch_shape:
  assumes "shape e = Some (i, s)"
  shows "(factory_drawShape (shapeFactory e) (getShapeType m) (Some m) = None
            \<longrightarrow> update m e =
                  Threw TypeError
                    (e\<lparr>model := Some m, data := Some (si_data m),
                       shapeType := getShapeType m, shape := Some (i, setShapeInfo m s),
                       offscreenGroup := Some (getOffscreenGroup e)\<rparr>))
       \<and> (\<forall>e'. update m e = Returned e' \<longrightarrow>
            factory_drawShape (shapeFactory e) (getShapeType m) (Some m) \<noteq> None)"
  using assms by (auto simp: update_def Let_def split: option.splits)

text \<open>
  C9 at the drawn point: the update to a model of shape type \<open>line\<close>, which the factory
  does not draw, throws; the update to a new radius returns.
\<close>

theorem update_needs_scratch_shape_witness:
  "shape exDrawn \<noteq> None
   \<and> factory_drawShape (shapeFactory exDrawn)
        (getShapeType (m0\<lparr>si_shape := ShapeName ''line''\<rparr>))
        (Some (m0\<lparr>si_shape := ShapeName ''line''\<rparr>)) = None
   \<and> update (m0\<lparr>si_shape := ShapeName ''line''\<rparr>) exDrawn \<noteq> Returned exDrawn
   \<and> getModel (after (update (m0\<lparr>si_shape := ShapeName ''line''\<rparr>) exDrawn))
        = Some (m0\<lparr>si_shape := ShapeName ''line''\<rparr>)
   \<and> factory_drawShape (shapeFactory exDrawn)
        (getShapeType (m0\<lparr>si_style := Some [(''r'', JNum 8)]\<rparr>))
        (Some (m0\<lparr>si_style := Some [(''r'', JNum 8)]\<rparr>)) \<noteq> None
   \<and> update (m0\<lparr>si_style := Some [(''r'', JNum 8)]\<rparr>) exDrawn
        = Returned (after (update (m0\<lparr>si_style := Some [(''r'', JNum 8)]\<rparr>) exDrawn))"
proof -
  have h: "shape exDrawn = Some (1, exPoint [(''fill'', JStr ''blue''), (''r'', JNum 5)])"
    by (simp add: exDrawn_eq)
  show ?thesis
    using h update_needs_scratch_shape [OF h, of "m0\<lparr>si_shape := ShapeName ''line''\<rparr>"]
      update_needs_scratch_shape [OF h, of "m0\<lparr>si_style := Some [(''r'', JNum 8)]\<rparr>"]
    by (simp add: exDrawn_eq update_def getModel_def ex_defs op_defs)
qed

section \<open>States\<close>

text \<open>
  Enabling a state on an element without a shape throws, with the state already in the
  list, and for a state other than \<open>active\<close> and \<open>selected\<close> with the factory already
  called for a scratch shape.
\<close>

lemma setState_shapeless:
  assumes "shape e = None" and "stateName \<notin> set (states e)"
  shows "setState stateName True e =
           Threw TypeError
             (if stateName = ''active'' \<or> stateName = ''selected''
              then e\<lparr>states := states e @ [stateName]\<rparr>
              else e\<lparr>states := states e @ [stateName],
                     offscreenGroup := Some
                       (getOffscreenGroup e @
                          (case factory_drawShape (shapeFactory e) (shapeType e) (model e) of
                             None \<Rightarrow> []
                           | Some offscreenShape \<Rightarrow> [offscreenShape]))\<rparr>)"
  using assms by (simp add: setState_def Let_def)

text \<open>
  C1 (the code at the failing input): on an element that was never drawn, and on one
  whose \<open>draw\<close> got no shape from the factory, \<open>update\<close> returns and changes nothing,
  but enabling a state throws a TypeError and leaves the state in the state list:
  \<open>setState\<close> has no test for a missing shape.
\<close>

theorem setState_without_shape_throws:
  "shape el0 = None \<and> states el0 = []
   \<and> update m0 el0 = Returned el0
   \<and> setState ''active'' True el0 = Threw TypeError (el0\<lparr>states := [''active'']\<rparr>)
   \<and> setState ''inactive'' True el0
        = Threw TypeError (el0\<lparr>states := [''inactive''], offscreenGroup := Some []\<rparr>)
   \<and> shape exBlank = None
   \<and> setState ''selected'' True exBlank
        = Threw TypeError (exBlank\<lparr>states := [''selected'']\<rparr>)"
  by (simp add: exBlank_def update_def ex_defs op_defs)

lemma setState_states:
  assumes "\<not> (stateStatus \<and> stateName \<in> set (states e))"
      and "\<not> (\<not> stateStatus \<and> stateName \<notin> set (states e))"
  shows "states (after (setState stateName stateStatus e))
           = (if stateStatus then states e @ [stateName] else remove1 stateName (states e))"
proof (cases "shape e")
  case None
  with assms show ?thesis
    by (cases stateStatus) (simp_all add: setState_def Let_def)
next
  case (Some p)
  obtain i s where p: "shape e = Some (i, s)"
    using Some by (cases p) simp
  show ?thesis
  proof (cases "factory_drawShape (shapeFactory e) (shapeType e) (model e)")
    case None
    with assms p show ?thesis
      by (cases stateStatus) (simp_all add: setState_def Let_def)
  next
    case (Some offscreenShape)
    with assms p show ?thesis
      by (cases stateStatus)
         (simp_all add: setState_def Let_def split: outcome.splits prod.splits)
  qed
qed

text \<open>
  C5: enabling a state that is in the state list, and disabling one that is not,
  return the element as it is (same states, same paint order, nothing emitted); and
  after an enabling call, whether it returned or threw, the state is set and a second
  identical call returns the element unchanged.
\<close>

theorem setState_noop_boundary:
  "(stateName \<in> set (states e) \<longrightarrow> setState stateName True e = Returned e)
   \<and> (stateName \<notin> set (states e) \<longrightarrow> setState stateName False e = Returned e)
   \<and> hasState (after (setState stateName True e)) stateName
   \<and> setState stateName True (after (setState stateName True e))
        = Returned (after (setState stateName True e))"
proof -
  have a: "setState stateName True e' = Returned e'" if "stateName \<in> set (states e')" for e'
    using that by (simp add: setState_def)
  have b: "setState stateName False e = Returned e" if "stateName \<notin> set (states e)"
    using that by (simp add: setState_def)
  have c: "stateName \<in> set (states (after (setState stateName True e)))"
  proof (cases "stateName \<in> set (states e)")
    case True
    with a [of e] show ?thesis by simp
  next
    case False
    with setState_states [of True stateName e] show ?thesis by simp
  qed
  show ?thesis
    using a [OF c] a [of e] b c by (simp add: hasState_def)
qed

text \<open>
  C5 at the drawn point: the first \<open>setState('active', true)\<close> yields the active
  element, the second leaves it as it is; disabling \<open>active\<close> before it was enabled
  changes nothing.
\<close>

theorem setState_noop_boundary_witness:
  "''active'' \<in> set (states exActive) \<and> setState ''active'' True exActive = Returned exActive
   \<and> ''active'' \<notin> set (states exDrawn) \<and> setState ''active'' False exDrawn = Returned exDrawn
   \<and> shape exDrawn \<noteq> None
   \<and> setState ''active'' True exDrawn = Returned exActive \<and> hasState exActive ''active''"
  using setState_noop_boundary [of "''active''" exActive]
    setState_noop_boundary [of "''active''" exDrawn] exActive_eq(1)
  by (simp add: exActive_eq(2) exDrawn_eq el0_def)

text \<open>
  With two states set, \<open>clearStates\<close> is \<open>setState\<close> for the first state followed by
  the assignment of the empty list: the second state is never passed to \<open>setState\<close>.
\<close>

lemma clearStates_two_states:
  assumes "states e = [a, b]" and "a \<noteq> b"
  shows "clearStates e =
           (case setState a False e of
              Threw err e' \<Rightarrow> Threw err e'
            | Returned e' \<Rightarrow> Returned (e'\<lparr>states := []\<rparr>))"
proof (cases "setState a False e")
  case (Threw err e')
  with assms show ?thesis
    by (simp add: clearStates_def numeral_2_eq_2)
next
  case (Returned e')
  with assms setState_states [of False a e] have "states e' = [b]"
    by simp
  with assms Returned show ?thesis
    by (simp add: clearStates_def numeral_2_eq_2)
qed

text \<open>
  C2 (the code at the failing input): the element has the states \<open>active\<close> and
  \<open>selected\<close>, and a fresh draw fills the leaf in blue. \<open>clearStates()\<close> disables
  \<open>active\<close> only: it ends with an empty state list, but the leaf keeps the red fill of
  \<open>selected\<close> and no event is emitted for \<open>selected\<close>. Disabling the two states one
  after the other restores the blue fill and emits both events.
\<close>

theorem clearStates_skips_second_state:
  "getStates exSelected = [''active'', ''selected'']
   \<and> map_option (\<lambda>(i, s). get_prop (node_attrs s) ''fill'') (shape (draw m0 False el0))
        = Some (JStr ''blue'')
   \<and> (case clearStates exSelected of
         Threw err e \<Rightarrow> False
       | Returned e \<Rightarrow>
           getStates e = []
           \<and> map_option (\<lambda>(i, s). get_prop (node_attrs s) ''fill'') (shape e)
                = Some (JStr ''red'')
           \<and> effects e
                = effects exSelected @ [Emit ''active'' False, Propagate ''active'' False])
   \<and> (case disableAll [''active'', ''selected''] exSelected of
         Threw err e \<Rightarrow> False
       | Returned e \<Rightarrow>
           getStates e = []
           \<and> map_option (\<lambda>(i, s). get_prop (node_attrs s) ''fill'') (shape e)
                = Some (JStr ''blue'')
           \<and> effects e = effects exSelected @
                [Emit ''active'' False, Propagate ''active'' False,
                 Emit ''selected'' False, Propagate ''selected'' False])"
  by (simp add: exSelected_eq(2) exActive_eq(2) exDrawn_eq getStates_def clearStates_def
        ex_defs op_defs)

section \<open>Reconciliation\<close>

lemma syncShapeStyle_leaf_target:
  assumes "state \<noteq> []"
  shows "\<exists>c' fx. syncShapeStyle e (Leaf t a) n state acfg idx
           = Returned (c', attr (ss_style (getStateStyle e state (shapeKey t idx))) n, fx)"
  using assms by (cases acfg) (simp_all add: Let_def)

lemma syncChildren_leaves:
  assumes "\<forall>c \<in> set cs. \<not> isGroup c" and "length cs \<le> length ns" and "state \<noteq> []"
  shows "\<exists>cs' ns' fx. syncChildren e cs ns state acfg index i = Returned (cs', ns', fx)
           \<and> length ns' = length ns
           \<and> (\<forall>j < length cs. ns' ! j =
                 attr (ss_style (getStateStyle e state
                         (shapeKey (node_tags (cs ! j)) (index + i + j)))) (ns ! j))"
  using assms
proof (induction cs arbitrary: ns i)
  case Nil
  then show ?case by simp
next
  case (Cons c cs)
  from Cons.prems obtain n ns0 where ns: "ns = n # ns0"
    by (cases ns) auto
  from Cons.prems obtain t a where c: "c = Leaf t a"
    by (cases c) auto
  obtain c' fx0 where hd:
    "syncShapeStyle e c n state acfg (index + i)
       = Returned (c', attr (ss_style (getStateStyle e state (shapeKey t (index + i)))) n, fx0)"
    using syncShapeStyle_leaf_target [OF Cons.prems(3), of e t a n acfg "index + i"]
    unfolding c by blast
  from Cons.prems ns have "\<forall>c \<in> set cs. \<not> isGroup c" "length cs \<le> length ns0"
    by auto
  from Cons.IH [OF this Cons.prems(3), of "Suc i"]
  obtain cs' ns' fx where tl:
    "syncChildren e cs ns0 state acfg index (Suc i) = Returned (cs', ns', fx)"
    "length ns' = length ns0"
    "\<forall>j < length cs. ns' ! j =
       attr (ss_style (getStateStyle e state
               (shapeKey (node_tags (cs ! j)) (index + Suc i + j)))) (ns0 ! j)"
    by blast
  have "\<forall>j < length (c # cs).
          (attr (ss_style (getStateStyle e state (shapeKey t (index + i)))) n # ns') ! j =
          attr (ss_style (getStateStyle e state
                  (shapeKey (node_tags ((c # cs) ! j)) (index + i + j)))) ((n # ns0) ! j)"
  proof (intro allI impI)
    fix j
    assume "j < length (c # cs)"
    then show
      "(attr (ss_style (getStateStyle e state (shapeKey t (index + i)))) n # ns') ! j =
       attr (ss_style (getStateStyle e state
               (shapeKey (node_tags ((c # cs) ! j)) (index + i + j)))) ((n # ns0) ! j)"
      using tl(3) by (cases j) (simp_all add: c)
  qed
  then show ?case
    by (simp add: ns hd tl(1) tl(2))
qed

text \<open>
  C3 (as stated, refuted): in a group of two groups of two unnamed leaves, the four
  leaves in flattened order look their state style up under the keys 0, 1, 1, 2, not
  0, 1, 2, 3: a child is given its parent's index plus its own position.
\<close>

theorem syncShapeStyle_nested_keys:
  "(case syncShapeStyle exKeyed exTree exTree ''active'' None 0 of
      Threw err r \<Rightarrow> []
    | Returned (s, t, fx) \<Rightarrow> map (\<lambda>n. get_prop (node_attrs n) ''key'') (leaves t))
   = [JNum 0, JNum 1, JNum 1, JNum 2]"
  by (simp add: exKeyed_def exTree_def exKeyStyle_def el0_def tags0_def getStateStyle_def
      shapeKey_def key_string_def decimal.simps Let_def get_prop_def getReplaceAttrs_def)

lemma length_leafPaths:
  "length (leafPaths s) = length (leaves s)"
  "length (childPaths cs i) = length (concat (map leaves cs))"
  by (induction s and cs i rule: leafPaths_childPaths.induct) simp_all

lemma parallel_length:
  "parallel s t \<Longrightarrow> length (leaves s) = length (leaves t)"
  "parallelList cs ns \<Longrightarrow> length (concat (map leaves cs)) = length (concat (map leaves ns))"
  by (induction s t and cs ns rule: parallel_parallelList.induct) simp_all

lemma styled_append:
  assumes "length ls = length ps" and "length ps = length ns"
  shows "styled e state index (ls @ ls') (ps @ ps') (ns @ ns')
           = styled e state index ls ps ns @ styled e state index ls' ps' ns'"
  using assms by (simp add: styled_def)

lemma styled_shift:
  "styled e state index ls (map ((#) i) ps) ns = styled e state (index + i) ls ps ns"
  by (simp add: styled_def zip_map2 zip_map1 case_prod_beta add.assoc)

lemma sync_parallel:
  assumes "state \<noteq> []"
  shows "parallel s t \<Longrightarrow>
           \<exists>s' t' fx. syncShapeStyle e s t state acfg index = Returned (s', t', fx)
             \<and> leaves t' = styled e state index (leaves s) (leafPaths s) (leaves t)"
    and "parallelList cs ns \<Longrightarrow>
           \<exists>cs' ns' fx. syncChildren e cs ns state acfg index i = Returned (cs', ns', fx)
             \<and> concat (map leaves ns')
                 = styled e state index (concat (map leaves cs)) (childPaths cs i)
                     (concat (map leaves ns))"
proof (induction s t and cs ns arbitrary: index and index i rule: parallel_parallelList.induct)
  case (1 t a tt ta)
  from syncShapeStyle_leaf_target [OF assms, of e t a "Leaf tt ta" acfg index]
  obtain c' fx where
    "syncShapeStyle e (Leaf t a) (Leaf tt ta) state acfg index
       = Returned (c', attr (ss_style (getStateStyle e state (shapeKey t index))) (Leaf tt ta), fx)"
    by blast
  moreover have "leaves (attr v (Leaf tt ta)) = [attr v (Leaf tt ta)]" for v
    by (cases v) simp_all
  ultimately show ?case
    by (simp add: styled_def)
next
  case (2 t a cs tt ta ns)
  show ?case
  proof (cases "cs = []")
    case True
    with "2.prems" show ?thesis by (cases ns) (simp_all add: styled_def)
  next
    case False
    from "2.prems" have "parallelList cs ns" by simp
    from "2.IH" [OF this, of index 0] obtain cs' ns' fx where
      "syncChildren e cs ns state acfg index 0 = Returned (cs', ns', fx)"
      "concat (map leaves ns')
         = styled e state index (concat (map leaves cs)) (childPaths cs 0)
             (concat (map leaves ns))"
      by blast
    with False show ?thesis by simp
  qed
next
  case (6 c cs n ns)
  from "6.prems" have par: "parallel c n" "parallelList cs ns" by simp_all
  from "6.IH"(1) [OF par(1), of "index + i"] obtain c' n' fx where hd:
    "syncShapeStyle e c n state acfg (index + i) = Returned (c', n', fx)"
    "leaves n' = styled e state (index + i) (leaves c) (leafPaths c) (leaves n)"
    by blast
  from "6.IH"(2) [OF par(2), of index "Suc i"] obtain cs' ns' fx' where tl:
    "syncChildren e cs ns state acfg index (Suc i) = Returned (cs', ns', fx')"
    "concat (map leaves ns')
       = styled e state index (concat (map leaves cs)) (childPaths cs (Suc i))
           (concat (map leaves ns))"
    by blast
  from par have len: "length (leaves c) = length (leaves n)"
    by (simp add: parallel_length)
  have "styled e state index (leaves c @ concat (map leaves cs))
          (map ((#) i) (leafPaths c) @ childPaths cs (Suc i))
          (leaves n @ concat (map leaves ns))
        = styled e state index (leaves c) (map ((#) i) (leafPaths c)) (leaves n)
          @ styled e state index (concat (map leaves cs)) (childPaths cs (Suc i))
              (concat (map leaves ns))"
    by (rule styled_append) (simp_all add: length_leafPaths len)
  then show ?case
    by (simp add: hd tl styled_shift)
qed (simp_all add: styled_def)

lemma shapeKey_no_name:
  "shapeKey (node_tags l) k
     = (if no_name l then KIndex k else KName (the (t_name (node_tags l))))"
  by (auto simp: shapeKey_def no_name_def split: option.splits)

text \<open>In a group of leaves the path of the child at position j is just j.\<close>

lemma leafPaths_flat:
  assumes "\<forall>c \<in> set cs. \<not> isGroup c"
  shows "childPaths cs i = map (\<lambda>j. [j]) [i..<i + length cs]"
  using assms
proof (induction cs arbitrary: i)
  case Nil
  then show ?case by simp
next
  case (Cons c cs)
  from Cons.prems obtain t a where c: "c = Leaf t a"
    by (cases c) auto
  have u: "[i..<i + length (c # cs)] = i # [Suc i..<Suc i + length cs]"
    using upt_conv_Cons [of i "i + length (c # cs)"] by (simp del: upt_Suc)
  from Cons.prems have "childPaths cs (Suc i) = map (\<lambda>j. [j]) [Suc i..<Suc i + length cs]"
    by (intro Cons.IH) simp
  then show ?case
    unfolding u by (simp add: c)
qed

text \<open>
  C3 (amended): in one top-level pass with a state over a live tree and a structurally
  parallel scratch tree, the pass returns, and every scratch leaf has been given the
  state style found under the key of the live leaf at the same place in flattened
  order: that leaf's name if it has one, and otherwise the integer sum of the child
  positions on its path from the root (its parent's index plus its own position; 0 for
  a root leaf).
\<close>

theorem syncShapeStyle_path_keys:
  assumes "parallel s t" and "state \<noteq> []"
  shows "\<exists>s' t' fx.
           syncShapeStyle e s t state animateCfg 0 = Returned (s', t', fx)
           \<and> leaves t' =
               map (\<lambda>(l, p, n).
                      attr (ss_style (getStateStyle e state
                              (if no_name l then KIndex (sum_list p)
                               else KName (the (t_name (node_tags l)))))) n)
                 (zip (leaves s) (zip (leafPaths s) (leaves t)))"
  using sync_parallel(1) [OF assms(2) assms(1), of e animateCfg 0]
  by (simp add: styled_def shapeKey_no_name)

text \<open>
  C3 (amended) at a group of two unnamed leaves: their paths are [0] and [1], and the
  keys they are styled under are 0 and 1.
\<close>

theorem syncShapeStyle_path_keys_witness:
  "parallel exFlat exFlat \<and> ''active'' \<noteq> []
   \<and> leafPaths exFlat = [[0], [1]]
   \<and> (case syncShapeStyle exKeyed exFlat exFlat ''active'' None 0 of
         Threw err r \<Rightarrow> []
       | Returned (s, t, fx) \<Rightarrow> map (\<lambda>n. get_prop (node_attrs n) ''key'') (leaves t))
      = [JNum 0, JNum 1]"
proof -
  have p: "parallel exFlat exFlat" and a: "''active'' \<noteq> []"
    by (simp_all add: exFlat_def)
  from syncShapeStyle_path_keys [OF p a, of exKeyed None]
  obtain s' t' fx
    where r: "syncShapeStyle exKeyed exFlat exFlat ''active'' None 0 = Returned (s', t', fx)"
    and l: "leaves t' =
       map (\<lambda>(l, p, n).
              attr (ss_style (getStateStyle exKeyed ''active''
                      (if no_name l then KIndex (sum_list p)
                       else KName (the (t_name (node_tags l)))))) n)
         (zip (leaves exFlat) (zip (leafPaths exFlat) (leaves exFlat)))"
    by blast
  have "map (\<lambda>n. get_prop (node_attrs n) ''key'') (leaves t') = [JNum 0, JNum 1]"
    unfolding l
    by (simp add: exFlat_def exKeyed_def exKeyStyle_def el0_def tags0_def getStateStyle_def
        no_name_def key_string_def decimal.simps Let_def get_prop_def)
  with p r show ?thesis
    by (simp add: exFlat_def)
qed

text \<open>
  The same for a group of leaves whose scratch group may have more children, and
  children of either kind: the scratch child at position j is styled under the key of
  the leaf at position j, the integer j for a leaf with no name.
\<close>

lemma syncShapeStyle_flat_keys:
  assumes "\<forall>c \<in> set children. \<not> isGroup c"
      and "length children \<le> length newChildren"
      and "state \<noteq> []"
  shows "\<exists>cs ncs fx.
           syncShapeStyle e (Group t a children) (Group tt ta newChildren) state animateCfg 0
             = Returned (Group t a cs, Group tt ta ncs, fx)
           \<and> (\<forall>j < length children.
                 ncs ! j = attr (ss_style (getStateStyle e state
                                  (shapeKey (node_tags (children ! j)) j))) (newChildren ! j)
                 \<and> (no_name (children ! j) \<longrightarrow>
                      shapeKey (node_tags (children ! j)) j = KIndex j))"
proof (cases "children = []")
  case True
  then show ?thesis by simp
next
  case False
  from syncChildren_leaves [OF assms, of e animateCfg 0 0]
  obtain cs' ns' fx where r:
    "syncChildren e children newChildren state animateCfg 0 0 = Returned (cs', ns', fx)"
    "\<forall>j < length children. ns' ! j =
       attr (ss_style (getStateStyle e state (shapeKey (node_tags (children ! j)) j)))
         (newChildren ! j)"
    by auto
  with False show ?thesis
    by (simp add: shapeKey_no_name)
qed

end
